theory Spec2Isabelle
  imports Complex_Main
begin

section \<open>Python values\<close>

text \<open>
  The retriever handles JSON-like Python values: the parsed response of the Retrieve
  API and the metadata of a Document. A \<^verbatim>\<open>dict\<close> keeps its insertion order, so it is
  an association list; a well-formed dict has distinct keys. Floats are modelled by
  their exact rational value (finite floats only), ints are unbounded.
\<close>

datatype pyval =
    PNone
  | PBool bool
  | PInt int
  | PFloat rat
  | PStr string
  | PList "pyval list"
  | PDict "(string \<times> pyval) list"

type_synonym pydict = "(string \<times> pyval) list"

text \<open>The exceptions of the Python code; \<^verbatim>\<open>ValueError\<close> carries its message,
  \<^verbatim>\<open>ValidationError\<close> is the one pydantic raises when a model is constructed.\<close>

datatype py_error =
    ValueError string
  | AttributeError
  | KeyError string
  | TypeError
  | ValidationError

text \<open>Truth value testing (\<^verbatim>\<open>not x\<close>, \<^verbatim>\<open>if x\<close>, \<^verbatim>\<open>x if x else y\<close>).\<close>

fun truthy :: "pyval \<Rightarrow> bool" where
  "truthy PNone = False"
| "truthy (PBool b) = b"
| "truthy (PInt i) = (i \<noteq> 0)"
| "truthy (PFloat r) = (r \<noteq> 0)"
| "truthy (PStr s) = (s \<noteq> [])"
| "truthy (PList xs) = (xs \<noteq> [])"
| "truthy (PDict kvs) = (kvs \<noteq> [])"

text \<open>\<^verbatim>\<open>d.get(k)\<close> is \<open>map_of d k\<close>, with \<open>None\<close> for a missing key.\<close>

definition dict_get :: "pydict \<Rightarrow> string \<Rightarrow> pyval \<Rightarrow> pyval" where
  \<comment> \<open>\<^verbatim>\<open>d.get(k, default)\<close>\<close>
  "dict_get d k dflt = (case map_of d k of None \<Rightarrow> dflt | Some v \<Rightarrow> v)"

fun dict_set :: "pydict \<Rightarrow> string \<Rightarrow> pyval \<Rightarrow> pydict" where
  \<comment> \<open>\<^verbatim>\<open>d[k] = v\<close>: an existing key keeps its position, a new key goes last\<close>
  "dict_set [] k v = [(k, v)]"
| "dict_set ((k', v') # d) k v =
     (if k' = k then (k, v) # d else (k', v') # dict_set d k v)"

definition dict_del :: "pydict \<Rightarrow> string \<Rightarrow> pydict" where
  \<comment> \<open>the dict left by \<^verbatim>\<open>d.pop(k)\<close>\<close>
  "dict_del d k = filter (\<lambda>kv. fst kv \<noteq> k) d"

definition dict_pop :: "pydict \<Rightarrow> string \<Rightarrow> py_error + (pyval \<times> pydict)" where
  \<comment> \<open>\<^verbatim>\<open>d.pop(k)\<close>: the value and the remaining dict, KeyError for a missing key\<close>
  "dict_pop d k =
     (case map_of d k of
        None \<Rightarrow> Inl (KeyError k)
      | Some v \<Rightarrow> Inr (v, dict_del d k))"

text \<open>
  \<^verbatim>\<open>x.get(k, default)\<close> on an arbitrary value: only a dict has the method, any other
  value raises AttributeError.
\<close>

fun attr_get :: "pyval \<Rightarrow> string \<Rightarrow> pyval \<Rightarrow> py_error + pyval" where
  "attr_get (PDict d) k dflt = Inr (dict_get d k dflt)"
| "attr_get _ k dflt = Inl AttributeError"

section \<open>JSON text\<close>

text \<open>
  \<^verbatim>\<open>json.dumps\<close> with its default arguments (\<^verbatim>\<open>ensure_ascii=True\<close>, separators
  \<^verbatim>\<open>", "\<close> and \<^verbatim>\<open>": "\<close>, no indentation, keys in insertion order) is a function of the
  Python standard library. The retriever takes it as a parameter below; \<open>json_dumps\<close>
  is the instance used in the examples. A character is a code point below 256, and the
  text of a float (Python's \<^verbatim>\<open>float.__repr__\<close>) is the argument \<open>float_repr\<close>.
\<close>

fun digits_of_nat :: "nat \<Rightarrow> string" where
  "digits_of_nat n =
     (if n < 10 then [''0123456789'' ! n]
      else digits_of_nat (n div 10) @ [''0123456789'' ! (n mod 10)])"

declare digits_of_nat.simps [simp del]

definition str_of_int :: "int \<Rightarrow> string" where
  "str_of_int i = (if i < 0 then CHR ''-'' # digits_of_nat (nat (- i)) else digits_of_nat (nat i))"

definition json_escape :: "char \<Rightarrow> string" where
  "json_escape c =
     (let n = (of_char c :: nat) in
      if n = 0x22 then [CHR 0x5C, CHR 0x22]
      else if n = 0x5C then [CHR 0x5C, CHR 0x5C]
      else if n = 0x0A then [CHR 0x5C, CHR ''n'']
      else if n = 0x0D then [CHR 0x5C, CHR ''r'']
      else if n = 0x09 then [CHR 0x5C, CHR ''t'']
      else if n = 0x08 then [CHR 0x5C, CHR ''b'']
      else if n = 0x0C then [CHR 0x5C, CHR ''f'']
      else if 0x20 \<le> n \<and> n \<le> 0x7E then [c]
      else [CHR 0x5C, CHR ''u'', CHR ''0'', CHR ''0'',
            ''0123456789abcdef'' ! (n div 16), ''0123456789abcdef'' ! (n mod 16)])"

definition json_string :: "string \<Rightarrow> string" where
  "json_string s = CHR 0x22 # concat (map json_escape s) @ [CHR 0x22]"

fun json_dumps :: "(rat \<Rightarrow> string) \<Rightarrow> pyval \<Rightarrow> string"
  and json_elements :: "(rat \<Rightarrow> string) \<Rightarrow> pyval list \<Rightarrow> string"
  and json_members :: "(rat \<Rightarrow> string) \<Rightarrow> (string \<times> pyval) list \<Rightarrow> string" where
  "json_dumps float_repr PNone = ''null''"
| "json_dumps float_repr (PBool b) = (if b then ''true'' else ''false'')"
| "json_dumps float_repr (PInt i) = str_of_int i"
| "json_dumps float_repr (PFloat r) = float_repr r"
| "json_dumps float_repr (PStr s) = json_string s"
| "json_dumps float_repr (PList xs) = ''['' @ json_elements float_repr xs @ '']''"
| "json_dumps float_repr (PDict kvs) = ''{'' @ json_members float_repr kvs @ ''}''"
| "json_elements float_repr [] = []"
| "json_elements float_repr [x] = json_dumps float_repr x"
| "json_elements float_repr (x # y # ys) =
     json_dumps float_repr x @ '', '' @ json_elements float_repr (y # ys)"
| "json_members float_repr [] = []"
| "json_members float_repr [(k, v)] = json_string k @ '': '' @ json_dumps float_repr v"
| "json_members float_repr ((k, v) # kv # kvs) =
     json_string k @ '': '' @ json_dumps float_repr v @ '', '' @ json_members float_repr (kv # kvs)"

section \<open>Configuration models\<close>

text \<open>
  The three pydantic models of the module. \<^verbatim>\<open>SearchFilter\<close> is recursive, so it is a
  datatype with one selector per declared field, in the order of the declaration;
  \<^verbatim>\<open>Filter\<close> is \<^verbatim>\<open>Dict[str, FilterValue]\<close>, and every JSON-like value is a
  \<^verbatim>\<open>FilterValue\<close>. The selectors \<open>greaterThan_field\<close>, \<open>lessThan_field\<close>
  and \<open>filter_field\<close> carry a suffix, the plain names being taken in HOL; \<open>in_field\<close>
  is the field the source calls \<^verbatim>\<open>in_\<close>.
\<close>

datatype SearchFilter = SearchFilter
  (andAll: "SearchFilter list option")
  (orAll: "SearchFilter list option")
  (equals: "pydict option")
  (greaterThan_field: "pydict option")
  (greaterThanOrEquals: "pydict option")
  (in_field: "pydict option")
  (lessThan_field: "pydict option")
  (lessThanOrEquals: "pydict option")
  (listContains: "pydict option")
  (notEquals: "pydict option")
  (notIn: "pydict option")
  (startsWith: "pydict option")
  (stringContains: "pydict option")

datatype SearchType = HYBRID | SEMANTIC

text \<open>
  \<^verbatim>\<open>VectorSearchConfig\<close> and \<^verbatim>\<open>RetrievalConfig\<close> are declared with \<^verbatim>\<open>extra="allow"\<close>: the
  keys that are no declared field are kept, in \<open>vs_extra\<close> and \<open>rc_extra\<close>.
\<close>

record VectorSearchConfig =
  numberOfResults :: int
  filter_field :: "SearchFilter option"
  overrideSearchType :: "SearchType option"
  vs_extra :: pydict

record RetrievalConfig =
  vectorSearchConfiguration :: VectorSearchConfig
  nextToken :: "string option"
  rc_extra :: pydict

text \<open>
  Construction with keyword arguments of the declared types; \<open>None\<close> is an argument
  left out. \<^verbatim>\<open>numberOfResults: int = 4\<close> has a default and no \<^verbatim>\<open>Field\<close> constraint;
  \<^verbatim>\<open>overrideSearchType\<close> is a \<^verbatim>\<open>Literal["HYBRID", "SEMANTIC"]\<close>, any other string is
  refused. The conversions pydantic applies to arguments of other types are not
  modelled.
\<close>

definition SearchType_of :: "string \<Rightarrow> py_error + SearchType" where
  "SearchType_of s =
     (if s = ''HYBRID'' then Inr HYBRID
      else if s = ''SEMANTIC'' then Inr SEMANTIC
      else Inl ValidationError)"

definition VectorSearchConfig_init ::
  "int option \<Rightarrow> SearchFilter option \<Rightarrow> string option \<Rightarrow> pydict \<Rightarrow> py_error + VectorSearchConfig" where
  "VectorSearchConfig_init n f t extra =
     (let number = (case n of None \<Rightarrow> 4 | Some i \<Rightarrow> i) in
      case t of
        None \<Rightarrow>
          Inr \<lparr>numberOfResults = number, filter_field = f, overrideSearchType = None, vs_extra = extra\<rparr>
      | Some s \<Rightarrow>
          (case SearchType_of s of
             Inl e \<Rightarrow> Inl e
           | Inr ty \<Rightarrow>
               Inr \<lparr>numberOfResults = number, filter_field = f, overrideSearchType = Some ty,
                    vs_extra = extra\<rparr>))"

definition RetrievalConfig_init ::
  "VectorSearchConfig \<Rightarrow> string option \<Rightarrow> pydict \<Rightarrow> RetrievalConfig" where
  "RetrievalConfig_init v t extra =
     \<lparr>vectorSearchConfiguration = v, nextToken = t, rc_extra = extra\<rparr>"

subsection \<open>Serialisation\<close>

text \<open>
  Modelled from the spec: \<^verbatim>\<open>model_dump(exclude_none=True, by_alias=True)\<close>, the
  serialisation of the pydantic library (not part of the repository). Section 4.2 of
  the specification gives its contract: a mapping that omits the fields left unset
  (absent, not null) and names the two aliased filter fields by their alias. The fields
  come in the order of the declaration, the extra keys after them; a \<^verbatim>\<open>Filter\<close> dict is
  emitted as it is.
\<close>

definition field_item :: "string \<Rightarrow> pyval option \<Rightarrow> pydict" where
  "field_item name v = (case v of None \<Rightarrow> [] | Some x \<Rightarrow> [(name, x)])"

definition dump_filters :: "pydict list option \<Rightarrow> pyval option" where
  "dump_filters fs = map_option (\<lambda>ds. PList (map PDict ds)) fs"

primrec SearchFilter_dump :: "SearchFilter \<Rightarrow> pydict" where
  "SearchFilter_dump (SearchFilter a_all o_all eq gt ge i lt le lc ne ni sw sc) =
       field_item ''andAll'' (dump_filters (map_option (map SearchFilter_dump) a_all))
     @ field_item ''orAll'' (dump_filters (map_option (map SearchFilter_dump) o_all))
     @ field_item ''equals'' (map_option PDict eq)
     @ field_item ''greaterThan'' (map_option PDict gt)
     @ field_item ''greaterThanOrEquals'' (map_option PDict ge)
     @ field_item ''in'' (map_option PDict i)
     @ field_item ''lessThan'' (map_option PDict lt)
     @ field_item ''lessThanOrEquals'' (map_option PDict le)
     @ field_item ''listContains'' (map_option PDict lc)
     @ field_item ''notEquals'' (map_option PDict ne)
     @ field_item ''notIn'' (map_option PDict ni)
     @ field_item ''startsWith'' (map_option PDict sw)
     @ field_item ''stringContains'' (map_option PDict sc)"

definition SearchType_dump :: "SearchType \<Rightarrow> pyval" where
  "SearchType_dump t = (case t of HYBRID \<Rightarrow> PStr ''HYBRID'' | SEMANTIC \<Rightarrow> PStr ''SEMANTIC'')"

definition extra_items :: "pydict \<Rightarrow> pydict" where
  "extra_items extra = filter (\<lambda>kv. snd kv \<noteq> PNone) extra"

definition VectorSearchConfig_dump :: "VectorSearchConfig \<Rightarrow> pydict" where
  "VectorSearchConfig_dump v =
       [(''numberOfResults'', PInt (numberOfResults v))]
     @ field_item ''filter'' (map_option (\<lambda>f. PDict (SearchFilter_dump f)) (filter_field v))
     @ field_item ''overrideSearchType'' (map_option SearchType_dump (overrideSearchType v))
     @ extra_items (vs_extra v)"

definition RetrievalConfig_dump :: "RetrievalConfig \<Rightarrow> pydict" where
  "RetrievalConfig_dump c =
       [(''vectorSearchConfiguration'', PDict (VectorSearchConfig_dump (vectorSearchConfiguration c)))]
     @ field_item ''nextToken'' (map_option PStr (nextToken c))
     @ extra_items (rc_extra c)"

subsection \<open>Construction of a filter from a mapping\<close>

text \<open>
  Modelled from the spec: the validation of a \<^verbatim>\<open>SearchFilter\<close> by the pydantic library
  (not part of the repository), as \<^verbatim>\<open>SearchFilter(**mapping)\<close> runs it. Section 4.1 of
  the specification: the mapping names the two aliased fields by their alias, children
  are validated recursively. The declarations of the source give the rest: every field
  is optional with default None, \<^verbatim>\<open>in_\<close> has the alias \<^verbatim>\<open>"in"\<close>, and with
  \<^verbatim>\<open>populate_by_name=True\<close> its own name is accepted too; a key that is no field is
  ignored. All validation failures are the one \<open>ValidationError\<close>.
\<close>

definition bind_err :: "'e + 'a \<Rightarrow> ('a \<Rightarrow> 'e + 'b) \<Rightarrow> 'e + 'b" where
  "bind_err x f = (case x of Inl e \<Rightarrow> Inl e | Inr a \<Rightarrow> f a)"

definition field_lookup :: "pydict \<Rightarrow> string \<Rightarrow> string \<Rightarrow> pyval option" where
  "field_lookup kvs alias name =
     (case map_of kvs alias of Some v \<Rightarrow> Some v | None \<Rightarrow> map_of kvs name)"

fun Filter_validate :: "pyval option \<Rightarrow> py_error + pydict option" where
  \<comment> \<open>a field of type \<^verbatim>\<open>Optional[Filter]\<close>, from the value found under its key\<close>
  "Filter_validate None = Inr None"
| "Filter_validate (Some PNone) = Inr None"
| "Filter_validate (Some (PDict d)) = Inr (Some d)"
| "Filter_validate (Some _) = Inl ValidationError"

definition SearchFilter_leaves ::
  "SearchFilter list option \<Rightarrow> SearchFilter list option \<Rightarrow> pydict \<Rightarrow> py_error + SearchFilter" where
  "SearchFilter_leaves a_all o_all kvs =
     bind_err (Filter_validate (map_of kvs ''equals'')) (\<lambda>eq.
     bind_err (Filter_validate (map_of kvs ''greaterThan'')) (\<lambda>gt.
     bind_err (Filter_validate (map_of kvs ''greaterThanOrEquals'')) (\<lambda>ge.
     bind_err (Filter_validate (field_lookup kvs ''in'' ''in_'')) (\<lambda>i.
     bind_err (Filter_validate (map_of kvs ''lessThan'')) (\<lambda>lt.
     bind_err (Filter_validate (map_of kvs ''lessThanOrEquals'')) (\<lambda>le.
     bind_err (Filter_validate (map_of kvs ''listContains'')) (\<lambda>lc.
     bind_err (Filter_validate (map_of kvs ''notEquals'')) (\<lambda>ne.
     bind_err (Filter_validate (map_of kvs ''notIn'')) (\<lambda>ni.
     bind_err (Filter_validate (map_of kvs ''startsWith'')) (\<lambda>sw.
     bind_err (Filter_validate (map_of kvs ''stringContains'')) (\<lambda>sc.
     Inr (SearchFilter a_all o_all eq gt ge i lt le lc ne ni sw sc))))))))))))"

function (sequential) SearchFilter_validate :: "pyval \<Rightarrow> py_error + SearchFilter"
  and SearchFilter_validate_list :: "pyval list \<Rightarrow> py_error + SearchFilter list"
  and SearchFilter_validate_field :: "pyval option \<Rightarrow> py_error + SearchFilter list option" where
  "SearchFilter_validate (PDict kvs) =
     (case SearchFilter_validate_field (map_of kvs ''andAll'') of
        Inl e \<Rightarrow> Inl e
      | Inr a_all \<Rightarrow>
          (case SearchFilter_validate_field (map_of kvs ''orAll'') of
             Inl e \<Rightarrow> Inl e
           | Inr o_all \<Rightarrow> SearchFilter_leaves a_all o_all kvs))"
| "SearchFilter_validate _ = Inl ValidationError"
| "SearchFilter_validate_list [] = Inr []"
| "SearchFilter_validate_list (x # xs) =
     (case SearchFilter_validate x of
        Inl e \<Rightarrow> Inl e
      | Inr f \<Rightarrow>
          (case SearchFilter_validate_list xs of
             Inl e \<Rightarrow> Inl e
           | Inr fs \<Rightarrow> Inr (f # fs)))"
| "SearchFilter_validate_field None = Inr None"
| "SearchFilter_validate_field (Some PNone) = Inr None"
| "SearchFilter_validate_field (Some (PList xs)) =
     (case SearchFilter_validate_list xs of
        Inl e \<Rightarrow> Inl e
      | Inr fs \<Rightarrow> Inr (Some fs))"
| "SearchFilter_validate_field (Some _) = Inl ValidationError"
  by pat_completeness auto

termination
proof (relation "measure (\<lambda>x. case x of
            Inl v \<Rightarrow> 2 * size v
          | Inr (Inl vs) \<Rightarrow> 2 * size_list size vs + 1
          | Inr (Inr vo) \<Rightarrow> (case vo of None \<Rightarrow> 0 | Some v \<Rightarrow> 2 * size v) + 1)",
       goal_cases)
  case 1
  show ?case by simp
next
  case (2 kvs)
  have "size v < size_list (size_prod (\<lambda>x. 0) size) kvs" if "map_of kvs ''andAll'' = Some v" for v
    using that by (induction kvs) (auto split: if_splits)
  then show ?case by (auto split: option.splits)
next
  case (3 kvs a_all)
  have "size v < size_list (size_prod (\<lambda>x. 0) size) kvs" if "map_of kvs ''orAll'' = Some v" for v
    using that by (induction kvs) (auto split: if_splits)
  then show ?case by (auto split: option.splits)
qed auto

section \<open>The retriever\<close>

text \<open>
  The fields of \<^verbatim>\<open>AmazonKnowledgeBasesRetriever\<close>, the boto3 client apart.
  \<^verbatim>\<open>retrieval_config\<close> is declared a \<^verbatim>\<open>Union[RetrievalConfig, Dict[str, Any]]\<close>.
\<close>

datatype retrieval_config_value =
    ConfigModel RetrievalConfig
  | ConfigDict pydict

record AmazonKnowledgeBasesRetriever =
  knowledge_base_id :: string
  region_name :: "string option"
  credentials_profile_name :: "string option"
  endpoint_url :: "string option"
  retrieval_config :: "retrieval_config_value option"
  min_score_confidence :: "rat option"

section \<open>Building the request\<close>

text \<open>
  \<^verbatim>\<open>str.strip()\<close> removes the leading and the trailing whitespace. Among the code
  points below 256 Python's whitespace is: tab, line feed, vertical tab, form feed,
  carriage return, the four separators 28 to 31, space, next line (133) and no-break
  space (160).
\<close>

definition py_isspace :: "char \<Rightarrow> bool" where
  "py_isspace c = ((of_char c :: nat) \<in> {9, 10, 11, 12, 13, 28, 29, 30, 31, 32, 133, 160})"

definition py_strip :: "string \<Rightarrow> string" where
  "py_strip s = rev (dropWhile py_isspace (rev (dropWhile py_isspace s)))"

text \<open>
  \<^verbatim>\<open>_get_retrieve_request\<close>. A model instance is truthy; a dict is truthy when it is
  not empty, and it has no method \<^verbatim>\<open>model_dump\<close>.
\<close>

definition get_retrieve_request :: "AmazonKnowledgeBasesRetriever \<Rightarrow> string \<Rightarrow> py_error + pydict" where
  "get_retrieve_request self query =
     (let request = [(''retrievalQuery'', PDict [(''text'', PStr (py_strip query))]),
                     (''knowledgeBaseId'', PStr (knowledge_base_id self))]
      in case retrieval_config self of
           None \<Rightarrow> Inr request
         | Some (ConfigModel c) \<Rightarrow>
             Inr (dict_set request ''retrievalConfiguration'' (PDict (RetrievalConfig_dump c)))
         | Some (ConfigDict d) \<Rightarrow>
             if d = [] then Inr request else Inl AttributeError)"

section \<open>Content extraction\<close>

text \<open>
  \<^verbatim>\<open>_get_content_from_result\<close>. The call \<^verbatim>\<open>json.dumps\<close> belongs to the Python standard
  library, not to the repository: it is the parameter \<open>dumps\<close>. On the values of
  \<^typ>\<open>pyval\<close> it never raises (every key is a string, every leaf is serialisable).
  Once \<^verbatim>\<open>content.get("type")\<close> is truthy the key exists, so \<^verbatim>\<open>content["type"]\<close> is the
  same value.
\<close>

definition get_content_from_result :: "(pyval \<Rightarrow> string) \<Rightarrow> pydict \<Rightarrow> py_error + pyval" where
  "get_content_from_result dumps result =
     (if result = [] then Inl (ValueError ''Invalid search result'')
      else
        let content = dict_get result ''content'' PNone in
        if \<not> truthy content then
          Inl (ValueError ''Invalid search result, content is missing from the result'')
        else
          case attr_get content ''type'' PNone of
            Inl e \<Rightarrow> Inl e
          | Inr ty \<Rightarrow>
              if \<not> truthy ty then attr_get content ''text'' PNone
              else if ty = PStr ''TEXT'' then attr_get content ''text'' PNone
              else if ty = PStr ''IMAGE'' then attr_get content ''byteContent'' PNone
              else if ty = PStr ''ROW'' then
                (case attr_get content ''row'' (PList []) of
                   Inl e \<Rightarrow> Inl e
                 | Inr row \<Rightarrow> Inr (PStr (dumps (if truthy row then row else PList []))))
              else Inr PNone)"

section \<open>Documents\<close>

text \<open>
  \<^verbatim>\<open>Document\<close> is the class of \<^verbatim>\<open>langchain_core\<close>, which is not part of the repository:
  a pydantic model with the fields \<^verbatim>\<open>page_content: str\<close> and \<^verbatim>\<open>metadata: dict\<close>. The record
  keeps the body as a \<^typ>\<open>pyval\<close>; the constructor \<open>Document_init\<close> validates it as the
  library does: a body that is not a string, None included, raises a ValidationError.
\<close>

record Document =
  page_content :: pyval
  metadata :: pydict

fun Document_init :: "pyval \<Rightarrow> pydict \<Rightarrow> py_error + Document" where
  \<comment> \<open>\<^verbatim>\<open>Document(page_content=content, metadata=result)\<close>\<close>
  "Document_init (PStr s) md = Inr \<lparr>page_content = PStr s, metadata = md\<rparr>"
| "Document_init _ md = Inl ValidationError"

text \<open>
  The body of the loop of \<^verbatim>\<open>_retrieval_results_to_documents\<close>, for one result. The
  source mutates \<^verbatim>\<open>result\<close> in place; here each statement returns the new dict.
\<close>

definition result_to_document :: "(pyval \<Rightarrow> string) \<Rightarrow> pydict \<Rightarrow> py_error + Document" where
  "result_to_document dumps result =
     (case get_content_from_result dumps result of
        Inl e \<Rightarrow> Inl e
      | Inr content \<Rightarrow>
          (case attr_get (dict_get result ''content'' (PDict [])) ''type'' (PStr ''TEXT'') of
             Inl e \<Rightarrow> Inl e
           | Inr ty \<Rightarrow>
               (case dict_pop (dict_set result ''type'' ty) ''content'' of
                  Inl e \<Rightarrow> Inl e
                | Inr (_, r1) \<Rightarrow>
                    let r2 = (if map_of r1 ''score'' = None
                              then dict_set r1 ''score'' (PInt 0) else r1);
                        r3 = (case map_of r2 ''metadata'' of
                                None \<Rightarrow> r2
                              | Some m \<Rightarrow> dict_set (dict_del r2 ''metadata'') ''source_metadata'' m)
                    in Document_init content r3)))"

text \<open>The loop: the first result that raises ends the whole call.\<close>

fun retrieval_results_to_documents ::
  "(pyval \<Rightarrow> string) \<Rightarrow> pydict list \<Rightarrow> py_error + Document list" where
  "retrieval_results_to_documents dumps [] = Inr []"
| "retrieval_results_to_documents dumps (result # results) =
     (case result_to_document dumps result of
        Inl e \<Rightarrow> Inl e
      | Inr doc \<Rightarrow>
          (case retrieval_results_to_documents dumps results of
             Inl e \<Rightarrow> Inl e
           | Inr documents \<Rightarrow> Inr (doc # documents)))"

section \<open>Filtering by score confidence\<close>

text \<open>
  \<^verbatim>\<open>score >= self.min_score_confidence\<close> with a float on the right: bool, int and float
  compare by value, any other left operand raises TypeError.
\<close>

fun score_ge :: "pyval \<Rightarrow> rat \<Rightarrow> py_error + bool" where
  "score_ge (PBool b) m = Inr (m \<le> of_bool b)"
| "score_ge (PInt i) m = Inr (m \<le> of_int i)"
| "score_ge (PFloat r) m = Inr (m \<le> r)"
| "score_ge _ m = Inl TypeError"

definition keep_item :: "rat \<Rightarrow> Document \<Rightarrow> py_error + bool" where
  \<comment> \<open>the condition of the list comprehension; \<^verbatim>\<open>and\<close> short-circuits\<close>
  "keep_item m item =
     (if dict_get (metadata item) ''score'' PNone = PNone then Inr False
      else score_ge (dict_get (metadata item) ''score'' (PFloat 0)) m)"

fun filtered_docs :: "rat \<Rightarrow> Document list \<Rightarrow> py_error + Document list" where
  "filtered_docs m [] = Inr []"
| "filtered_docs m (item # docs) =
     (case keep_item m item of
        Inl e \<Rightarrow> Inl e
      | Inr keep \<Rightarrow>
          (case filtered_docs m docs of
             Inl e \<Rightarrow> Inl e
           | Inr rest \<Rightarrow> Inr (if keep then item # rest else rest)))"

definition filter_by_score_confidence ::
  "AmazonKnowledgeBasesRetriever \<Rightarrow> Document list \<Rightarrow> py_error + Document list" where
  \<comment> \<open>\<^verbatim>\<open>not self.min_score_confidence\<close> holds for None and for 0.0\<close>
  "filter_by_score_confidence self docs =
     (case min_score_confidence self of
        None \<Rightarrow> Inr docs
      | Some m \<Rightarrow> if m = 0 then Inr docs else filtered_docs m docs)"

text \<open>
  The words of the specification for the documents the filter keeps: the metadata
  \<^verbatim>\<open>score\<close> is present, not null, and at least the threshold. A bool counts as the
  number 0 or 1, as in Python.
\<close>

definition score_at_least :: "rat \<Rightarrow> Document \<Rightarrow> bool" where
  "score_at_least m d =
     (case map_of (metadata d) ''score'' of
        Some (PBool b) \<Rightarrow> m \<le> of_bool b
      | Some (PInt i) \<Rightarrow> m \<le> of_int i
      | Some (PFloat r) \<Rightarrow> m \<le> r
      | _ \<Rightarrow> False)"

text \<open>The score of a document of the data model: absent, null or a number.\<close>

definition score_well_typed :: "Document \<Rightarrow> bool" where
  "score_well_typed d =
     (case map_of (metadata d) ''score'' of
        None \<Rightarrow> True
      | Some PNone \<Rightarrow> True
      | Some (PBool b) \<Rightarrow> True
      | Some (PInt i) \<Rightarrow> True
      | Some (PFloat r) \<Rightarrow> True
      | Some _ \<Rightarrow> False)"

section \<open>Properties of the dict operations\<close>

lemma map_of_dict_set: "map_of (dict_set d k v) = (map_of d)(k \<mapsto> v)"
  by (induction d) (auto simp: fun_eq_iff)

lemma map_of_dict_del: "map_of (dict_del d k) = (map_of d)(k := None)"
  by (induction d) (auto simp: dict_del_def fun_eq_iff)

section \<open>Properties of content extraction\<close>

text \<open>What the extraction returns when the content is a non-empty mapping.\<close>

lemma get_content_mapping:
  assumes "map_of result ''content'' = Some (PDict c)" and "c \<noteq> []"
  shows "get_content_from_result dumps result =
     (let ty = dict_get c ''type'' PNone in
      if \<not> truthy ty then Inr (dict_get c ''text'' PNone)
      else if ty = PStr ''TEXT'' then Inr (dict_get c ''text'' PNone)
      else if ty = PStr ''IMAGE'' then Inr (dict_get c ''byteContent'' PNone)
      else if ty = PStr ''ROW'' then
        Inr (PStr (dumps (if truthy (dict_get c ''row'' (PList []))
                          then dict_get c ''row'' (PList []) else PList [])))
      else Inr PNone)"
proof -
  from assms(1) have "result \<noteq> []" by auto
  with assms show ?thesis
    by (simp add: get_content_from_result_def dict_get_def Let_def)
qed

lemma get_content_mapping_returns:
  assumes "map_of result ''content'' = Some (PDict c)" and "c \<noteq> []"
  shows "\<exists>v. get_content_from_result dumps result = Inr v"
  using get_content_mapping [OF assms, of dumps] by (simp add: Let_def)

lemma get_content_missing:
  assumes "result = [] \<or> map_of result ''content'' = None \<or> map_of result ''content'' = Some (PDict [])"
  shows "\<exists>msg. get_content_from_result dumps result = Inl (ValueError msg)"
  using assms by (auto simp: get_content_from_result_def dict_get_def)

lemma get_content_returns_mapping:
  assumes "get_content_from_result dumps result = Inr v"
  shows "\<exists>c. map_of result ''content'' = Some (PDict c) \<and> c \<noteq> []"
proof -
  from assms have ne: "result \<noteq> []" and t: "truthy (dict_get result ''content'' PNone)"
    by (auto simp: get_content_from_result_def Let_def split: if_splits)
  from t obtain x where x: "map_of result ''content'' = Some x" "truthy x"
    by (cases "map_of result ''content''") (auto simp: dict_get_def)
  from assms ne x have "\<exists>ty. attr_get x ''type'' PNone = Inr ty"
    by (auto simp: get_content_from_result_def dict_get_def Let_def split: sum.splits)
  then obtain c where "x = PDict c" by (cases x) auto
  with x show ?thesis by auto
qed

text \<open>
  Claim C4. The extraction raises the ValueError of an invalid result when the raw
  result is empty, when it has no \<^verbatim>\<open>content\<close> key, and when its content is the empty
  mapping; it returns a value whenever the content is a non-empty mapping. So on the
  raw results of the data model, whose content is a mapping when it is there, the
  error is raised if and only if the result is empty or the content is absent or empty.
\<close>

theorem invalid_result_iff_content_missing:
  "((result = [] \<or> map_of result ''content'' = None \<or> map_of result ''content'' = Some (PDict []))
      \<longrightarrow> (\<exists>msg. get_content_from_result dumps result = Inl (ValueError msg)))
   \<and> ((\<exists>c. map_of result ''content'' = Some (PDict c) \<and> c \<noteq> [])
      \<longrightarrow> (\<exists>v. get_content_from_result dumps result = Inr v))
   \<and> ((map_of result ''content'' = None \<or> (\<exists>c. map_of result ''content'' = Some (PDict c)))
      \<longrightarrow> ((\<exists>msg. get_content_from_result dumps result = Inl (ValueError msg)) \<longleftrightarrow>
           (result = [] \<or> map_of result ''content'' = None
            \<or> map_of result ''content'' = Some (PDict []))))"
proof (intro conjI impI)
  assume "result = [] \<or> map_of result ''content'' = None \<or> map_of result ''content'' = Some (PDict [])"
  then show "\<exists>msg. get_content_from_result dumps result = Inl (ValueError msg)"
    by (rule get_content_missing)
next
  assume "\<exists>c. map_of result ''content'' = Some (PDict c) \<and> c \<noteq> []"
  then show "\<exists>v. get_content_from_result dumps result = Inr v"
    by (auto intro: get_content_mapping_returns)
next
  assume typed: "map_of result ''content'' = None \<or> (\<exists>c. map_of result ''content'' = Some (PDict c))"
  show "(\<exists>msg. get_content_from_result dumps result = Inl (ValueError msg)) \<longleftrightarrow>
        (result = [] \<or> map_of result ''content'' = None \<or> map_of result ''content'' = Some (PDict []))"
  proof
    assume raised: "\<exists>msg. get_content_from_result dumps result = Inl (ValueError msg)"
    show "result = [] \<or> map_of result ''content'' = None \<or> map_of result ''content'' = Some (PDict [])"
    proof (rule ccontr)
      assume "\<not> ?thesis"
      with typed obtain c where "map_of result ''content'' = Some (PDict c)" "c \<noteq> []"
        by auto
      from get_content_mapping_returns [OF this, of dumps] raised show False by auto
    qed
  next
    assume "result = [] \<or> map_of result ''content'' = None \<or> map_of result ''content'' = Some (PDict [])"
    then show "\<exists>msg. get_content_from_result dumps result = Inl (ValueError msg)"
      by (rule get_content_missing)
  qed
qed

theorem invalid_result_iff_content_missing_witness:
  "(\<exists>msg. get_content_from_result (json_dumps (\<lambda>r. [])) [(''content'', PDict [])] = Inl (ValueError msg))
   \<and> (\<exists>msg. get_content_from_result (json_dumps (\<lambda>r. [])) [(''score'', PFloat (7 / 10))] = Inl (ValueError msg))
   \<and> (\<exists>v. get_content_from_result (json_dumps (\<lambda>r. []))
             [(''content'', PDict [(''text'', PStr ''hi'')])] = Inr v)"
  using invalid_result_iff_content_missing [of "[(''content'', PDict [])]" "json_dumps (\<lambda>r. [])"]
    invalid_result_iff_content_missing [of "[(''score'', PFloat (7 / 10))]" "json_dumps (\<lambda>r. [])"]
    invalid_result_iff_content_missing [of "[(''content'', PDict [(''text'', PStr ''hi'')])]" "json_dumps (\<lambda>r. [])"]
  by simp


section \<open>Properties of decoding\<close>

text \<open>
  Decoding a result whose content is a non-empty mapping: the metadata is built whatever
  the extraction returned, and the document is constructed exactly when the extracted
  content is a string. For a string the lemma gives the document, its body and every
  key of its metadata.
\<close>

lemma decode_mapping:
  assumes "map_of result ''content'' = Some (PDict c)" and "c \<noteq> []"
    and "get_content_from_result dumps result = Inr v"
  shows "\<exists>md. result_to_document dumps result = Document_init v md
           \<and> map_of md =
               (\<lambda>k. if k = ''content'' \<or> k = ''metadata'' then None
                    else if k = ''source_metadata'' then
                      (case map_of result ''metadata'' of
                         None \<Rightarrow> map_of result ''source_metadata''
                       | Some m \<Rightarrow> Some m)
                    else if k = ''score'' then Some (dict_get result ''score'' (PInt 0))
                    else if k = ''type'' then Some (dict_get c ''type'' (PStr ''TEXT''))
                    else map_of result k)"
proof -
  define ty where "ty = dict_get c ''type'' (PStr ''TEXT'')"
  define r1 where "r1 = dict_del (dict_set result ''type'' ty) ''content''"
  define r2 where "r2 = (if map_of r1 ''score'' = None then dict_set r1 ''score'' (PInt 0) else r1)"
  define r3 where "r3 = (case map_of r2 ''metadata'' of None \<Rightarrow> r2
                         | Some m \<Rightarrow> dict_set (dict_del r2 ''metadata'') ''source_metadata'' m)"
  have ag: "attr_get (dict_get result ''content'' (PDict [])) ''type'' (PStr ''TEXT'') = Inr ty"
    using assms(1) by (simp add: dict_get_def ty_def)
  have pop: "dict_pop (dict_set result ''type'' ty) ''content'' = Inr (PDict c, r1)"
    using assms(1) by (simp add: dict_pop_def map_of_dict_set r1_def)
  have doc: "result_to_document dumps result = Document_init v r3"
    unfolding r3_def r2_def by (simp add: result_to_document_def assms(3) ag pop Let_def)
  have m1: "map_of r1 = ((map_of result)(''type'' \<mapsto> ty))(''content'' := None)"
    by (simp add: r1_def map_of_dict_del map_of_dict_set)
  have m2: "map_of r2 = (map_of r1)(''score'' \<mapsto> dict_get result ''score'' (PInt 0))"
    by (auto simp: r2_def m1 map_of_dict_set dict_get_def fun_eq_iff)
  have m3: "map_of r3 =
      (case map_of result ''metadata'' of
         None \<Rightarrow> map_of r2
       | Some m \<Rightarrow> ((map_of r2)(''metadata'' := None))(''source_metadata'' \<mapsto> m))"
    by (simp add: r3_def m2 m1 map_of_dict_del map_of_dict_set split: option.split)
  have "map_of r3 =
               (\<lambda>k. if k = ''content'' \<or> k = ''metadata'' then None
                    else if k = ''source_metadata'' then
                      (case map_of result ''metadata'' of
                         None \<Rightarrow> map_of result ''source_metadata''
                       | Some m \<Rightarrow> Some m)
                    else if k = ''score'' then Some (dict_get result ''score'' (PInt 0))
                    else if k = ''type'' then Some ty
                    else map_of result k)"
    by (auto simp: m3 m2 m1 fun_eq_iff split: option.split)
  with doc show ?thesis unfolding ty_def by blast
qed

lemma decode_lookup:
  assumes "map_of result ''content'' = Some (PDict c)" and "c \<noteq> []"
    and "get_content_from_result dumps result = Inr (PStr s)"
  shows "\<exists>doc. result_to_document dumps result = Inr doc
           \<and> page_content doc = PStr s
           \<and> map_of (metadata doc) =
               (\<lambda>k. if k = ''content'' \<or> k = ''metadata'' then None
                    else if k = ''source_metadata'' then
                      (case map_of result ''metadata'' of
                         None \<Rightarrow> map_of result ''source_metadata''
                       | Some m \<Rightarrow> Some m)
                    else if k = ''score'' then Some (dict_get result ''score'' (PInt 0))
                    else if k = ''type'' then Some (dict_get c ''type'' (PStr ''TEXT''))
                    else map_of result k)"
proof -
  from decode_mapping [OF assms] obtain md where
    "result_to_document dumps result = Document_init (PStr s) md"
    and "map_of md =
               (\<lambda>k. if k = ''content'' \<or> k = ''metadata'' then None
                    else if k = ''source_metadata'' then
                      (case map_of result ''metadata'' of
                         None \<Rightarrow> map_of result ''source_metadata''
                       | Some m \<Rightarrow> Some m)
                    else if k = ''score'' then Some (dict_get result ''score'' (PInt 0))
                    else if k = ''type'' then Some (dict_get c ''type'' (PStr ''TEXT''))
                    else map_of result k)"
    by blast
  then show ?thesis by (intro exI [of _ "\<lparr>page_content = PStr s, metadata = md\<rparr>"]) simp
qed

lemma Document_init_returns:
  assumes "Document_init v md = Inr doc"
  shows "\<exists>s. v = PStr s"
  using assms by (cases v) simp_all

lemma decode_returns_string:
  assumes "result_to_document dumps result = Inr doc"
  shows "\<exists>c s. map_of result ''content'' = Some (PDict c) \<and> c \<noteq> []
           \<and> get_content_from_result dumps result = Inr (PStr s)"
proof -
  from assms obtain v where v: "get_content_from_result dumps result = Inr v"
    by (auto simp: result_to_document_def split: sum.splits)
  from get_content_returns_mapping [OF v] obtain c where
    c: "map_of result ''content'' = Some (PDict c)" "c \<noteq> []" by blast
  from decode_mapping [OF c v] assms obtain md where "Document_init v md = Inr doc"
    by auto
  from Document_init_returns [OF this] v c show ?thesis by blast
qed

lemma decode_not_string:
  assumes "get_content_from_result dumps result = Inr v" and "\<forall>s. v \<noteq> PStr s"
  shows "result_to_document dumps result = Inl ValidationError"
proof -
  from get_content_returns_mapping [OF assms(1)] obtain c where
    c: "map_of result ''content'' = Some (PDict c)" "c \<noteq> []" by blast
  from decode_mapping [OF c assms(1)] obtain md where
    "result_to_document dumps result = Document_init v md" by blast
  with assms(2) show ?thesis by (cases v) simp_all
qed

section \<open>Unrecognised content types\<close>

text \<open>
  For a truthy type tag other than TEXT, IMAGE and ROW the extraction returns None, and
  the document cannot be built from it: decoding the result raises, and so does the
  loop over any list of results that holds it behind results that decode.
\<close>

lemma unrecognised_type_extraction:
  assumes "map_of result ''content'' = Some (PDict c)"
    and "map_of c ''type'' = Some ty" and "truthy ty"
    and "ty \<noteq> PStr ''TEXT''" and "ty \<noteq> PStr ''IMAGE''" and "ty \<noteq> PStr ''ROW''"
  shows "get_content_from_result dumps result = Inr PNone"
    and "result_to_document dumps result = Inl ValidationError"
proof -
  from assms(2) have c: "c \<noteq> []" by auto
  have ty: "dict_get c ''type'' PNone = ty"
    using assms(2) by (simp add: dict_get_def)
  from get_content_mapping [OF assms(1) c, of dumps] assms(3-6)
  show null: "get_content_from_result dumps result = Inr PNone"
    by (simp add: ty Let_def)
  then show "result_to_document dumps result = Inl ValidationError"
    by (rule decode_not_string) simp
qed

text \<open>
  Claim C5. The raw result with the content type AUDIO: the extraction returns None, as
  the claim says, but decoding raises the ValidationError of the document constructor,
  and a list of results that holds this one is not decoded: the loop ends with the
  error, also when the other results are well formed.
\<close>

theorem unrecognised_type_aborts_decoding:
  "get_content_from_result (json_dumps (\<lambda>r. [])) [(''content'', PDict [(''type'', PStr ''AUDIO'')])]
     = Inr PNone
   \<and> result_to_document (json_dumps (\<lambda>r. [])) [(''content'', PDict [(''type'', PStr ''AUDIO'')])]
     = Inl ValidationError
   \<and> retrieval_results_to_documents (json_dumps (\<lambda>r. []))
       [[(''content'', PDict [(''type'', PStr ''TEXT''), (''text'', PStr ''hi'')])],
        [(''content'', PDict [(''type'', PStr ''AUDIO'')])]]
     = Inl ValidationError"
  by (simp add: result_to_document_def get_content_from_result_def dict_get_def
      dict_pop_def dict_del_def)

section \<open>Tabular content\<close>

text \<open>
  A row that is a non-empty mapping is serialised as it is, which is no array; and for
  a row that is present with the value null the extraction returns the text of the
  empty sequence, not the text \<^verbatim>\<open>null\<close> of the field.
\<close>

theorem row_not_a_sequence_counterexample:
  "get_content_from_result (json_dumps (\<lambda>r. []))
     [(''content'', PDict [(''type'', PStr ''ROW''), (''row'', PDict [(''a'', PInt 1)])])]
     = Inr (PStr (''{'' @ [CHR 0x22] @ ''a'' @ [CHR 0x22] @ '': 1}''))
   \<and> get_content_from_result (json_dumps (\<lambda>r. []))
     [(''content'', PDict [(''type'', PStr ''ROW''), (''row'', PNone)])]
     = Inr (PStr ''[]'')
   \<and> json_dumps (\<lambda>r. []) PNone = ''null''"
  by (simp add: get_content_from_result_def dict_get_def json_string_def json_escape_def
      str_of_int_def digits_of_nat.simps)

text \<open>
  Claim C6, amended. For every raw result whose content has the type ROW the
  extraction returns a JSON text: the serialisation of the \<^verbatim>\<open>row\<close> field when the field
  is truthy (not empty), and the serialisation of the empty sequence, the string
  \<^verbatim>\<open>[]\<close>, when the field is absent, null or otherwise falsy. So for a row that is
  absent, falsy or a sequence the text is an array: with \<open>json_dumps\<close> it opens with a
  bracket, lists the elements and closes with a bracket.
\<close>

theorem row_content_is_json_text:
  assumes "map_of result ''content'' = Some (PDict c)"
    and "map_of c ''type'' = Some (PStr ''ROW'')"
  shows "(map_of c ''row'' = None \<longrightarrow>
            get_content_from_result dumps result = Inr (PStr (dumps (PList [])))
          \<and> get_content_from_result (json_dumps float_repr) result = Inr (PStr ''[]''))
       \<and> (\<forall>v. map_of c ''row'' = Some v \<and> \<not> truthy v \<longrightarrow>
            get_content_from_result dumps result = Inr (PStr (dumps (PList [])))
          \<and> get_content_from_result (json_dumps float_repr) result = Inr (PStr ''[]''))
       \<and> (\<forall>v. map_of c ''row'' = Some v \<and> truthy v \<longrightarrow>
            get_content_from_result dumps result = Inr (PStr (dumps v)))
       \<and> (\<forall>xs. map_of c ''row'' = Some (PList xs) \<longrightarrow>
            get_content_from_result dumps result = Inr (PStr (dumps (PList xs)))
          \<and> get_content_from_result (json_dumps float_repr) result =
              Inr (PStr (''['' @ json_elements float_repr xs @ '']'')))"
proof -
  from assms(2) have c: "c \<noteq> []" by auto
  have ty: "dict_get c ''type'' PNone = PStr ''ROW''"
    using assms(2) by (simp add: dict_get_def)
  have ext: "get_content_from_result d result =
      Inr (PStr (d (if truthy (dict_get c ''row'' (PList []))
                    then dict_get c ''row'' (PList []) else PList [])))" for d
    using get_content_mapping [OF assms(1) c, of d] by (simp add: ty Let_def)
  show ?thesis
  proof (intro conjI impI allI)
    assume "map_of c ''row'' = None"
    then have "dict_get c ''row'' (PList []) = PList []" by (simp add: dict_get_def)
    then show "get_content_from_result dumps result = Inr (PStr (dumps (PList [])))"
      and "get_content_from_result (json_dumps float_repr) result = Inr (PStr ''[]'')"
      by (simp_all add: ext)
  next
    fix v assume "map_of c ''row'' = Some v \<and> \<not> truthy v"
    then have "dict_get c ''row'' (PList []) = v" "\<not> truthy v" by (simp_all add: dict_get_def)
    then show "get_content_from_result dumps result = Inr (PStr (dumps (PList [])))"
      and "get_content_from_result (json_dumps float_repr) result = Inr (PStr ''[]'')"
      by (simp_all add: ext)
  next
    fix v assume "map_of c ''row'' = Some v \<and> truthy v"
    then have "dict_get c ''row'' (PList []) = v" "truthy v" by (simp_all add: dict_get_def)
    then show "get_content_from_result dumps result = Inr (PStr (dumps v))"
      by (simp add: ext)
  next
    fix xs assume "map_of c ''row'' = Some (PList xs)"
    then have row: "dict_get c ''row'' (PList []) = PList xs" by (simp add: dict_get_def)
    show "get_content_from_result dumps result = Inr (PStr (dumps (PList xs)))"
      by (cases xs) (simp_all add: ext row)
    show "get_content_from_result (json_dumps float_repr) result =
              Inr (PStr (''['' @ json_elements float_repr xs @ '']''))"
      by (cases xs) (simp_all add: ext row)
  qed
qed

theorem row_content_is_json_text_witness:
  "get_content_from_result (json_dumps (\<lambda>r. [])) [(''content'', PDict [(''type'', PStr ''ROW'')])]
     = Inr (PStr ''[]'')
   \<and> get_content_from_result (json_dumps (\<lambda>r. []))
       [(''content'', PDict [(''type'', PStr ''ROW''), (''row'', PDict [])])]
     = Inr (PStr ''[]'')
   \<and> get_content_from_result (json_dumps (\<lambda>r. []))
       [(''content'', PDict [(''type'', PStr ''ROW''),
                             (''row'', PList [PDict [(''n'', PInt 7)], PDict []])])]
     = Inr (PStr (''[{'' @ [CHR 0x22] @ ''n'' @ [CHR 0x22] @ '': 7}, {}]''))"
  using row_content_is_json_text [of "[(''content'', PDict [(''type'', PStr ''ROW'')])]"
      "[(''type'', PStr ''ROW'')]" "json_dumps (\<lambda>r. [])" "\<lambda>r. []"]
    row_content_is_json_text [of
      "[(''content'', PDict [(''type'', PStr ''ROW''), (''row'', PDict [])])]"
      "[(''type'', PStr ''ROW''), (''row'', PDict [])]" "json_dumps (\<lambda>r. [])" "\<lambda>r. []"]
    row_content_is_json_text [of
      "[(''content'', PDict [(''type'', PStr ''ROW''),
                             (''row'', PList [PDict [(''n'', PInt 7)], PDict []])])]"
      "[(''type'', PStr ''ROW''), (''row'', PList [PDict [(''n'', PInt 7)], PDict []])]"
      "json_dumps (\<lambda>r. [])" "\<lambda>r. []"]
  by (simp add: json_string_def json_escape_def str_of_int_def digits_of_nat.simps)

section \<open>Decoding a result\<close>




section \<open>Properties of the score filter\<close>

text \<open>
  On documents whose score is absent, null or a number the comparison never raises and
  the condition of the comprehension is \<open>score_at_least\<close>; whatever the scores are, a
  document that is kept passed the condition, and one with a null score does not.
\<close>

lemma keep_item_typed:
  assumes "score_well_typed d"
  shows "keep_item m d = Inr (score_at_least m d)"
proof (cases "map_of (metadata d) ''score''")
  case None
  then show ?thesis by (simp add: keep_item_def score_at_least_def dict_get_def)
next
  case (Some s)
  with assms show ?thesis
    by (cases s) (simp_all add: keep_item_def score_at_least_def score_well_typed_def dict_get_def)
qed

lemma filtered_docs_typed:
  assumes "\<forall>d\<in>set docs. score_well_typed d"
  shows "filtered_docs m docs = Inr (filter (score_at_least m) docs)"
  using assms by (induction docs) (simp_all add: keep_item_typed)

lemma filtered_docs_kept:
  assumes "filtered_docs m docs = Inr out" and "d \<in> set out"
  shows "keep_item m d = Inr True"
  using assms
proof (induction docs arbitrary: out)
  case Nil
  then show ?case by simp
next
  case (Cons item docs)
  from Cons.prems(1) obtain keep rest where
    k: "keep_item m item = Inr keep" and r: "filtered_docs m docs = Inr rest"
    and out: "out = (if keep then item # rest else rest)"
    by (auto split: sum.splits)
  show ?case
  proof (cases "d \<in> set rest")
    case True
    with Cons.IH [OF r] show ?thesis .
  next
    case False
    with Cons.prems(2) out have "keep" "d = item" by (auto split: if_splits)
    with k show ?thesis by simp
  qed
qed

lemma null_score_not_kept:
  assumes "map_of (metadata d) ''score'' = Some PNone"
  shows "keep_item m d = Inr False"
  using assms by (simp add: keep_item_def dict_get_def)

text \<open>
  Claim C8. With no threshold, or the threshold zero, the filter returns its input
  unchanged. With any other threshold \<open>m\<close> it returns, for documents whose scores are
  absent, null or numbers, exactly the documents of the input whose score is present,
  not null and at least \<open>m\<close>: the list \<open>filter (score_at_least m) docs\<close>, so in the
  order of the input and with every kept document as it was. With the threshold 0.5 and
  the scores 0.9, 0.3, null and 0.5, the documents with 0.9 and 0.5 are kept, in this
  order.
\<close>

theorem confidence_filter_keeps_scores_at_least:
  "(min_score_confidence self = None \<or> min_score_confidence self = Some 0 \<longrightarrow>
      filter_by_score_confidence self docs = Inr docs)
   \<and> (min_score_confidence self = Some m \<and> m \<noteq> 0 \<and> (\<forall>d\<in>set docs. score_well_typed d) \<longrightarrow>
         filter_by_score_confidence self docs = Inr (filter (score_at_least m) docs))
   \<and> (min_score_confidence self = Some (1 / 2) \<longrightarrow>
        filter_by_score_confidence self
          [\<lparr>page_content = b1, metadata = [(''score'', PFloat (9 / 10))]\<rparr>,
           \<lparr>page_content = b2, metadata = [(''score'', PFloat (3 / 10))]\<rparr>,
           \<lparr>page_content = b3, metadata = [(''score'', PNone)]\<rparr>,
           \<lparr>page_content = b4, metadata = [(''score'', PFloat (1 / 2))]\<rparr>]
        = Inr [\<lparr>page_content = b1, metadata = [(''score'', PFloat (9 / 10))]\<rparr>,
               \<lparr>page_content = b4, metadata = [(''score'', PFloat (1 / 2))]\<rparr>])"
proof (intro conjI impI)
  assume "min_score_confidence self = None \<or> min_score_confidence self = Some 0"
  then show "filter_by_score_confidence self docs = Inr docs"
    by (auto simp: filter_by_score_confidence_def)
next
  assume "min_score_confidence self = Some m \<and> m \<noteq> 0 \<and> (\<forall>d\<in>set docs. score_well_typed d)"
  then show "filter_by_score_confidence self docs = Inr (filter (score_at_least m) docs)"
    by (simp add: filter_by_score_confidence_def filtered_docs_typed)
next
  assume "min_score_confidence self = Some (1 / 2)"
  then show "filter_by_score_confidence self
          [\<lparr>page_content = b1, metadata = [(''score'', PFloat (9 / 10))]\<rparr>,
           \<lparr>page_content = b2, metadata = [(''score'', PFloat (3 / 10))]\<rparr>,
           \<lparr>page_content = b3, metadata = [(''score'', PNone)]\<rparr>,
           \<lparr>page_content = b4, metadata = [(''score'', PFloat (1 / 2))]\<rparr>]
        = Inr [\<lparr>page_content = b1, metadata = [(''score'', PFloat (9 / 10))]\<rparr>,
               \<lparr>page_content = b4, metadata = [(''score'', PFloat (1 / 2))]\<rparr>]"
    by (simp add: filter_by_score_confidence_def keep_item_def dict_get_def)
qed

theorem confidence_filter_keeps_scores_at_least_witness:
  "filter_by_score_confidence
     \<lparr>knowledge_base_id = ''kb-1'', region_name = None, credentials_profile_name = None,
      endpoint_url = None, retrieval_config = None, min_score_confidence = Some (1 / 2)\<rparr>
     [\<lparr>page_content = PStr ''a'', metadata = [(''score'', PFloat (9 / 10))]\<rparr>,
      \<lparr>page_content = PStr ''b'', metadata = [(''score'', PInt 0)]\<rparr>,
      \<lparr>page_content = PStr ''c'', metadata = [(''type'', PStr ''TEXT'')]\<rparr>,
      \<lparr>page_content = PStr ''d'', metadata = [(''score'', PInt 1)]\<rparr>]
   = Inr [\<lparr>page_content = PStr ''a'', metadata = [(''score'', PFloat (9 / 10))]\<rparr>,
          \<lparr>page_content = PStr ''d'', metadata = [(''score'', PInt 1)]\<rparr>]
   \<and> filter_by_score_confidence
     \<lparr>knowledge_base_id = ''kb-1'', region_name = None, credentials_profile_name = None,
      endpoint_url = None, retrieval_config = None, min_score_confidence = None\<rparr>
     [\<lparr>page_content = PStr ''b'', metadata = [(''score'', PInt 0)]\<rparr>]
   = Inr [\<lparr>page_content = PStr ''b'', metadata = [(''score'', PInt 0)]\<rparr>]"
  using confidence_filter_keeps_scores_at_least [of
     "\<lparr>knowledge_base_id = ''kb-1'', region_name = None, credentials_profile_name = None,
      endpoint_url = None, retrieval_config = None, min_score_confidence = Some (1 / 2)\<rparr>"
     "[\<lparr>page_content = PStr ''a'', metadata = [(''score'', PFloat (9 / 10))]\<rparr>,
      \<lparr>page_content = PStr ''b'', metadata = [(''score'', PInt 0)]\<rparr>,
      \<lparr>page_content = PStr ''c'', metadata = [(''type'', PStr ''TEXT'')]\<rparr>,
      \<lparr>page_content = PStr ''d'', metadata = [(''score'', PInt 1)]\<rparr>]" "1 / 2"]
    confidence_filter_keeps_scores_at_least [of
     "\<lparr>knowledge_base_id = ''kb-1'', region_name = None, credentials_profile_name = None,
      endpoint_url = None, retrieval_config = None, min_score_confidence = None\<rparr>"
     "[\<lparr>page_content = PStr ''b'', metadata = [(''score'', PInt 0)]\<rparr>]"]
  by (simp add: score_well_typed_def score_at_least_def)

text \<open>
  Claim C10. A raw result has the key \<^verbatim>\<open>score\<close> with the value null. Then in any
  document decoded from it the metadata \<^verbatim>\<open>score\<close> is still null (the default 0 is set
  only for an absent key), and with a positive threshold the filter drops the document:
  alone it gives the empty list, and it is in no list the filter returns. Such a result
  is decoded to a document whenever its content is a non-empty mapping from which the
  extraction returns a string.
\<close>

theorem null_score_stays_null_and_is_filtered_out:
  assumes "map_of result ''score'' = Some PNone"
  shows "(\<forall>doc. result_to_document dumps result = Inr doc \<longrightarrow>
            map_of (metadata doc) ''score'' = Some PNone
          \<and> (min_score_confidence self = Some m \<and> 0 < m \<longrightarrow>
                filter_by_score_confidence self [doc] = Inr []
              \<and> (\<forall>docs kept. filter_by_score_confidence self docs = Inr kept \<longrightarrow> doc \<notin> set kept)))
       \<and> ((\<exists>c s. map_of result ''content'' = Some (PDict c) \<and> c \<noteq> []
               \<and> get_content_from_result dumps result = Inr (PStr s)) \<longrightarrow>
            (\<exists>doc. result_to_document dumps result = Inr doc))"
proof (intro conjI allI impI)
  fix doc
  assume doc: "result_to_document dumps result = Inr doc"
  from decode_returns_string [OF doc] obtain c s where
    c: "map_of result ''content'' = Some (PDict c)" "c \<noteq> []"
      "get_content_from_result dumps result = Inr (PStr s)" by blast
  from decode_lookup [OF c] doc assms
  show score: "map_of (metadata doc) ''score'' = Some PNone"
    by (auto simp: dict_get_def)
  assume m: "min_score_confidence self = Some m \<and> 0 < m"
  show "filter_by_score_confidence self [doc] = Inr []"
    using m by (simp add: filter_by_score_confidence_def null_score_not_kept [OF score])
  fix docs kept
  assume "filter_by_score_confidence self docs = Inr kept"
  with m have "filtered_docs m docs = Inr kept"
    by (simp add: filter_by_score_confidence_def)
  then show "doc \<notin> set kept"
    using filtered_docs_kept [of m docs kept doc] null_score_not_kept [OF score, of m] by auto
next
  assume "\<exists>c s. map_of result ''content'' = Some (PDict c) \<and> c \<noteq> []
               \<and> get_content_from_result dumps result = Inr (PStr s)"
  then obtain c s where "map_of result ''content'' = Some (PDict c)" "c \<noteq> []"
    "get_content_from_result dumps result = Inr (PStr s)" by blast
  from decode_lookup [OF this]
  show "\<exists>doc. result_to_document dumps result = Inr doc" by blast
qed

theorem null_score_stays_null_and_is_filtered_out_witness:
  "result_to_document (json_dumps (\<lambda>r. []))
     [(''content'', PDict [(''text'', PStr ''hi'')]), (''score'', PNone)]
   = Inr \<lparr>page_content = PStr ''hi'', metadata = [(''score'', PNone), (''type'', PStr ''TEXT'')]\<rparr>
   \<and> filter_by_score_confidence
       \<lparr>knowledge_base_id = ''kb-1'', region_name = None, credentials_profile_name = None,
        endpoint_url = None, retrieval_config = None, min_score_confidence = Some (1 / 10)\<rparr>
       [\<lparr>page_content = PStr ''hi'', metadata = [(''score'', PNone), (''type'', PStr ''TEXT'')]\<rparr>]
     = Inr []"
  using null_score_stays_null_and_is_filtered_out [of
      "[(''content'', PDict [(''text'', PStr ''hi'')]), (''score'', PNone)]"
      "json_dumps (\<lambda>r. [])"
      "\<lparr>knowledge_base_id = ''kb-1'', region_name = None, credentials_profile_name = None,
        endpoint_url = None, retrieval_config = None, min_score_confidence = Some (1 / 10)\<rparr>"
      "1 / 10"]
  by (simp add: result_to_document_def get_content_from_result_def dict_get_def
        dict_pop_def dict_del_def)

section \<open>Properties of the request\<close>

text \<open>
  What \<open>py_strip\<close> removes is whitespace at the two ends, and what it leaves neither
  starts nor ends with whitespace.
\<close>

lemma py_strip_decomposition:
  "\<exists>l r. query = l @ py_strip query @ r \<and> (\<forall>c\<in>set l. py_isspace c) \<and> (\<forall>c\<in>set r. py_isspace c)"
proof -
  define t where "t = dropWhile py_isspace query"
  have 1: "query = takeWhile py_isspace query @ t"
    by (simp add: t_def)
  have 2: "rev t = takeWhile py_isspace (rev t) @ dropWhile py_isspace (rev t)"
    by simp
  have 3: "t = py_strip query @ rev (takeWhile py_isspace (rev t))"
  proof -
    have "t = rev (rev t)" by simp
    also have "\<dots> = rev (takeWhile py_isspace (rev t) @ dropWhile py_isspace (rev t))"
      by simp
    also have "\<dots> = py_strip query @ rev (takeWhile py_isspace (rev t))"
      by (simp only: rev_append py_strip_def t_def)
    finally show ?thesis .
  qed
  have "query = takeWhile py_isspace query @ py_strip query @ rev (takeWhile py_isspace (rev t))"
    using 1 3 by simp
  moreover have "\<forall>c\<in>set (takeWhile py_isspace query). py_isspace c"
    by (auto dest: set_takeWhileD)
  moreover have "\<forall>c\<in>set (rev (takeWhile py_isspace (rev t))). py_isspace c"
    by (auto dest: set_takeWhileD)
  ultimately show ?thesis by blast
qed

lemma py_strip_ends:
  assumes "py_strip query \<noteq> []"
  shows "\<not> py_isspace (hd (py_strip query))" and "\<not> py_isspace (last (py_strip query))"
proof -
  define t where "t = dropWhile py_isspace query"
  define u where "u = dropWhile py_isspace (rev t)"
  have s: "py_strip query = rev u" by (simp add: py_strip_def u_def t_def)
  with assms have u: "u \<noteq> []" by simp
  then have "\<not> py_isspace (hd u)" unfolding u_def by (rule hd_dropWhile)
  with u show "\<not> py_isspace (last (py_strip query))" by (simp add: s last_rev)
  from u obtain ys where ys: "rev t = takeWhile py_isspace (rev t) @ u" 
    by (simp add: u_def)
  have "t = rev u @ rev (takeWhile py_isspace (rev t))"
  proof -
    have "t = rev (rev t)" by simp
    also have "\<dots> = rev (takeWhile py_isspace (rev t) @ u)" using ys by simp
    finally show ?thesis by simp
  qed
  moreover from u have "rev u \<noteq> []" by simp
  ultimately have "hd t = hd (rev u)" and "t \<noteq> []"
    by (metis hd_append2, metis append_is_Nil_conv)
  then have "\<not> py_isspace (hd (rev u))"
    using hd_dropWhile [of py_isspace query] by (simp add: t_def)
  then show "\<not> py_isspace (hd (py_strip query))" by (simp add: s)
qed


text \<open>
  Claim C2. The request holds the query with its leading and trailing whitespace
  removed under \<^verbatim>\<open>retrievalQuery.text\<close> and the given id under \<^verbatim>\<open>knowledgeBaseId\<close>. With
  no configuration the request is exactly these two entries: the key
  \<^verbatim>\<open>retrievalConfiguration\<close> is absent. With a \<^verbatim>\<open>RetrievalConfig\<close> the key holds its
  serialisation. The stripped text is the query without a whitespace prefix and a
  whitespace suffix, and has no whitespace at its ends. For the query
  \<^verbatim>\<open>"  hello world  "\<close> and the id \<^verbatim>\<open>kb-1\<close> the request is the one of the specification.
\<close>

theorem request_has_stripped_query_and_id:
  "(retrieval_config self = None \<longrightarrow>
      get_retrieve_request self query =
        Inr [(''retrievalQuery'', PDict [(''text'', PStr (py_strip query))]),
             (''knowledgeBaseId'', PStr (knowledge_base_id self))]
      \<and> (\<forall>request. get_retrieve_request self query = Inr request \<longrightarrow>
            map_of request ''retrievalConfiguration'' = None))
   \<and> (retrieval_config self = Some (ConfigModel c) \<longrightarrow>
        (\<exists>request. get_retrieve_request self query = Inr request
           \<and> map_of request ''retrievalQuery'' = Some (PDict [(''text'', PStr (py_strip query))])
           \<and> map_of request ''knowledgeBaseId'' = Some (PStr (knowledge_base_id self))
           \<and> map_of request ''retrievalConfiguration'' = Some (PDict (RetrievalConfig_dump c))))
   \<and> (\<exists>l r. query = l @ py_strip query @ r
          \<and> (\<forall>x\<in>set l. py_isspace x) \<and> (\<forall>x\<in>set r. py_isspace x))
   \<and> (py_strip query \<noteq> [] \<longrightarrow>
        \<not> py_isspace (hd (py_strip query)) \<and> \<not> py_isspace (last (py_strip query)))
   \<and> (knowledge_base_id self = ''kb-1'' \<and> retrieval_config self = None \<longrightarrow>
        get_retrieve_request self ''  hello world  '' =
          Inr [(''retrievalQuery'', PDict [(''text'', PStr ''hello world'')]),
               (''knowledgeBaseId'', PStr ''kb-1'')])"
proof (intro conjI impI)
  assume n: "retrieval_config self = None"
  then show r: "get_retrieve_request self query =
        Inr [(''retrievalQuery'', PDict [(''text'', PStr (py_strip query))]),
             (''knowledgeBaseId'', PStr (knowledge_base_id self))]"
    by (simp add: get_retrieve_request_def)
  show "\<forall>request. get_retrieve_request self query = Inr request \<longrightarrow>
            map_of request ''retrievalConfiguration'' = None"
    unfolding r by simp
next
  assume "retrieval_config self = Some (ConfigModel c)"
  then show "\<exists>request. get_retrieve_request self query = Inr request
           \<and> map_of request ''retrievalQuery'' = Some (PDict [(''text'', PStr (py_strip query))])
           \<and> map_of request ''knowledgeBaseId'' = Some (PStr (knowledge_base_id self))
           \<and> map_of request ''retrievalConfiguration'' = Some (PDict (RetrievalConfig_dump c))"
    by (simp add: get_retrieve_request_def)
next
  show "\<exists>l r. query = l @ py_strip query @ r
          \<and> (\<forall>x\<in>set l. py_isspace x) \<and> (\<forall>x\<in>set r. py_isspace x)"
    by (rule py_strip_decomposition)
next
  assume "py_strip query \<noteq> []"
  then show "\<not> py_isspace (hd (py_strip query))" and "\<not> py_isspace (last (py_strip query))"
    by (rule py_strip_ends)+
next
  assume "knowledge_base_id self = ''kb-1'' \<and> retrieval_config self = None"
  then show "get_retrieve_request self ''  hello world  '' =
          Inr [(''retrievalQuery'', PDict [(''text'', PStr ''hello world'')]),
               (''knowledgeBaseId'', PStr ''kb-1'')]"
    by (simp add: get_retrieve_request_def py_strip_def py_isspace_def)
qed

theorem request_has_stripped_query_and_id_witness:
  "get_retrieve_request
     \<lparr>knowledge_base_id = ''kb-1'', region_name = None, credentials_profile_name = None,
      endpoint_url = None, retrieval_config = None, min_score_confidence = None\<rparr>
     ''  hello world  ''
   = Inr [(''retrievalQuery'', PDict [(''text'', PStr ''hello world'')]),
          (''knowledgeBaseId'', PStr ''kb-1'')]
   \<and> get_retrieve_request
     \<lparr>knowledge_base_id = ''kb-2'', region_name = None, credentials_profile_name = None,
      endpoint_url = None,
      retrieval_config = Some (ConfigModel
        \<lparr>vectorSearchConfiguration =
           \<lparr>numberOfResults = 4, filter_field = None, overrideSearchType = Some HYBRID, vs_extra = []\<rparr>,
         nextToken = None, rc_extra = []\<rparr>),
      min_score_confidence = None\<rparr>
     [CHR 0x09, CHR ''q'', CHR 0x0A]
   = Inr [(''retrievalQuery'', PDict [(''text'', PStr ''q'')]),
          (''knowledgeBaseId'', PStr ''kb-2''),
          (''retrievalConfiguration'',
             PDict [(''vectorSearchConfiguration'',
                     PDict [(''numberOfResults'', PInt 4), (''overrideSearchType'', PStr ''HYBRID'')])])]"
  using request_has_stripped_query_and_id [of
     "\<lparr>knowledge_base_id = ''kb-1'', region_name = None, credentials_profile_name = None,
      endpoint_url = None, retrieval_config = None, min_score_confidence = None\<rparr>"
     "''  hello world  ''"]
    request_has_stripped_query_and_id [of
     "\<lparr>knowledge_base_id = ''kb-2'', region_name = None, credentials_profile_name = None,
      endpoint_url = None,
      retrieval_config = Some (ConfigModel
        \<lparr>vectorSearchConfiguration =
           \<lparr>numberOfResults = 4, filter_field = None, overrideSearchType = Some HYBRID, vs_extra = []\<rparr>,
         nextToken = None, rc_extra = []\<rparr>),
      min_score_confidence = None\<rparr>"
     "[CHR 0x09, CHR ''q'', CHR 0x0A]"
     "\<lparr>vectorSearchConfiguration =
           \<lparr>numberOfResults = 4, filter_field = None, overrideSearchType = Some HYBRID, vs_extra = []\<rparr>,
         nextToken = None, rc_extra = []\<rparr>"]
  by (simp add: get_retrieve_request_def py_strip_def py_isspace_def RetrievalConfig_dump_def
      VectorSearchConfig_dump_def field_item_def SearchType_dump_def extra_items_def)

section \<open>Properties of the configuration models\<close>

text \<open>
  The keys of a serialised filter, and the round trip: validating the serialisation of
  a filter gives the filter back.
\<close>

lemma map_of_field_item:
  "map_of (field_item name v @ rest) k = (if k = name \<and> v \<noteq> None then v else map_of rest k)"
  by (cases v) (simp_all add: field_item_def)

lemma map_of_field_item_last:
  "map_of (field_item name v) k = (if k = name then v else None)"
  by (cases v) (simp_all add: field_item_def)

lemma Filter_validate_dump: "Filter_validate (map_option PDict x) = Inr x"
  by (cases x) simp_all

lemma validate_list_dump:
  assumes "\<And>f. f \<in> set fs \<Longrightarrow> SearchFilter_validate (PDict (SearchFilter_dump f)) = Inr f"
  shows "SearchFilter_validate_list (map PDict (map SearchFilter_dump fs)) = Inr fs"
  using assms by (induction fs) simp_all

lemma validate_field_dump:
  assumes "\<And>fs f. fs \<in> set_option a \<Longrightarrow> f \<in> set fs \<Longrightarrow>
             SearchFilter_validate (PDict (SearchFilter_dump f)) = Inr f"
  shows "SearchFilter_validate_field (dump_filters (map_option (map SearchFilter_dump) a)) = Inr a"
proof (cases a)
  case None
  then show ?thesis by (simp add: dump_filters_def)
next
  case (Some fs)
  with assms have "SearchFilter_validate_list (map PDict (map SearchFilter_dump fs)) = Inr fs"
    by (intro validate_list_dump) simp
  with Some show ?thesis by (simp add: dump_filters_def)
qed

lemma dump_lookups:
  fixes a_all o_all eq gt ge i lt le lc ne ni sw sc
  defines "d \<equiv> SearchFilter_dump (SearchFilter a_all o_all eq gt ge i lt le lc ne ni sw sc)"
  shows "map_of d ''andAll'' = dump_filters (map_option (map SearchFilter_dump) a_all)"
    and "map_of d ''orAll'' = dump_filters (map_option (map SearchFilter_dump) o_all)"
    and "map_of d ''equals'' = map_option PDict eq"
    and "map_of d ''greaterThan'' = map_option PDict gt"
    and "map_of d ''greaterThanOrEquals'' = map_option PDict ge"
    and "map_of d ''in'' = map_option PDict i"
    and "map_of d ''in_'' = None"
    and "map_of d ''lessThan'' = map_option PDict lt"
    and "map_of d ''lessThanOrEquals'' = map_option PDict le"
    and "map_of d ''listContains'' = map_option PDict lc"
    and "map_of d ''notEquals'' = map_option PDict ne"
    and "map_of d ''notIn'' = map_option PDict ni"
    and "map_of d ''startsWith'' = map_option PDict sw"
    and "map_of d ''stringContains'' = map_option PDict sc"
  unfolding d_def by (simp_all add: map_of_field_item map_of_field_item_last del: map_of_append)

lemma leaves_dump:
  "SearchFilter_leaves a b (SearchFilter_dump (SearchFilter a_all o_all eq gt ge i lt le lc ne ni sw sc))
     = Inr (SearchFilter a b eq gt ge i lt le lc ne ni sw sc)"
  unfolding SearchFilter_leaves_def field_lookup_def dump_lookups
  by (simp add: Filter_validate_dump bind_err_def split: option.split)

lemma validate_dump: "SearchFilter_validate (PDict (SearchFilter_dump f)) = Inr f"
proof (induction f)
  case (SearchFilter a_all o_all eq gt ge i lt le lc ne ni sw sc)
  have a: "SearchFilter_validate_field (dump_filters (map_option (map SearchFilter_dump) a_all)) = Inr a_all"
    using SearchFilter.IH(1) by (intro validate_field_dump) 
  have b: "SearchFilter_validate_field (dump_filters (map_option (map SearchFilter_dump) o_all)) = Inr o_all"
    using SearchFilter.IH(2) by (intro validate_field_dump) 
  show ?case
    unfolding SearchFilter_validate.simps dump_lookups a b
    by (simp only: leaves_dump sum.case)
qed


lemma keys_field_item: "fst ` set (field_item name v) \<subseteq> {name}"
  by (cases v) (simp_all add: field_item_def)

lemma SearchFilter_dump_keys:
  "fst ` set (SearchFilter_dump f) \<subseteq>
     {''andAll'', ''orAll'', ''equals'', ''greaterThan'', ''greaterThanOrEquals'', ''in'',
      ''lessThan'', ''lessThanOrEquals'', ''listContains'', ''notEquals'', ''notIn'',
      ''startsWith'', ''stringContains''}"
proof (cases f)
  case (SearchFilter a_all o_all eq gt ge i lt le lc ne ni sw sc)
  show ?thesis
    unfolding SearchFilter SearchFilter_dump.simps set_append image_Un
    by (intro Un_least subset_trans [OF keys_field_item]) simp_all
qed

lemma SearchFilter_dump_aliases:
  "map_of (SearchFilter_dump f) ''in'' = map_option PDict (in_field f)"
  "map_of (SearchFilter_dump f) ''notIn'' = map_option PDict (notIn f)"
  "map_of (SearchFilter_dump f) ''in_'' = None"
  by (cases f; simp only: dump_lookups SearchFilter.sel)+

section \<open>Serialised configurations\<close>

text \<open>
  Claim C3. A \<^verbatim>\<open>RetrievalConfig\<close> is built with only \<^verbatim>\<open>numberOfResults\<close> given. Its
  serialisation is the one entry \<^verbatim>\<open>vectorSearchConfiguration\<close> holding the one entry
  \<^verbatim>\<open>numberOfResults\<close>: the keys \<^verbatim>\<open>filter\<close>, \<^verbatim>\<open>overrideSearchType\<close> and \<^verbatim>\<open>nextToken\<close> are
  absent, and this is what the request carries. A filter that is set is serialised
  under \<^verbatim>\<open>filter\<close>, and in a serialised filter the two aliased fields stand under
  \<^verbatim>\<open>in\<close> and \<^verbatim>\<open>notIn\<close>: the key \<^verbatim>\<open>in_\<close> never occurs, every key is one of the thirteen
  names of the API.
\<close>

theorem unset_fields_are_omitted:
  "(VectorSearchConfig_init (Some n) None None [] = Inr v \<longrightarrow>
      RetrievalConfig_dump (RetrievalConfig_init v None [])
        = [(''vectorSearchConfiguration'', PDict [(''numberOfResults'', PInt n)])]
    \<and> map_of (RetrievalConfig_dump (RetrievalConfig_init v None [])) ''nextToken'' = None
    \<and> map_of (VectorSearchConfig_dump v) ''filter'' = None
    \<and> map_of (VectorSearchConfig_dump v) ''overrideSearchType'' = None
    \<and> (retrieval_config self = Some (ConfigModel (RetrievalConfig_init v None [])) \<longrightarrow>
          get_retrieve_request self query =
            Inr [(''retrievalQuery'', PDict [(''text'', PStr (py_strip query))]),
                 (''knowledgeBaseId'', PStr (knowledge_base_id self)),
                 (''retrievalConfiguration'',
                    PDict [(''vectorSearchConfiguration'', PDict [(''numberOfResults'', PInt n)])])]))
   \<and> (filter_field w = Some f \<longrightarrow>
        map_of (VectorSearchConfig_dump w) ''filter'' = Some (PDict (SearchFilter_dump f)))
   \<and> map_of (SearchFilter_dump f) ''in'' = map_option PDict (in_field f)
   \<and> map_of (SearchFilter_dump f) ''notIn'' = map_option PDict (notIn f)
   \<and> map_of (SearchFilter_dump f) ''in_'' = None
   \<and> fst ` set (SearchFilter_dump f) \<subseteq>
        {''andAll'', ''orAll'', ''equals'', ''greaterThan'', ''greaterThanOrEquals'', ''in'',
         ''lessThan'', ''lessThanOrEquals'', ''listContains'', ''notEquals'', ''notIn'',
         ''startsWith'', ''stringContains''}"
proof (intro conjI impI)
  assume "VectorSearchConfig_init (Some n) None None [] = Inr v"
  then have v: "v = \<lparr>numberOfResults = n, filter_field = None, overrideSearchType = None, vs_extra = []\<rparr>"
    by (simp add: VectorSearchConfig_init_def)
  show d: "RetrievalConfig_dump (RetrievalConfig_init v None [])
        = [(''vectorSearchConfiguration'', PDict [(''numberOfResults'', PInt n)])]"
    by (simp add: v RetrievalConfig_dump_def RetrievalConfig_init_def VectorSearchConfig_dump_def
        field_item_def extra_items_def)
  show "map_of (RetrievalConfig_dump (RetrievalConfig_init v None [])) ''nextToken'' = None"
    unfolding d by simp
  show "map_of (VectorSearchConfig_dump v) ''filter'' = None"
    and "map_of (VectorSearchConfig_dump v) ''overrideSearchType'' = None"
    by (simp_all add: v VectorSearchConfig_dump_def field_item_def extra_items_def)
  assume "retrieval_config self = Some (ConfigModel (RetrievalConfig_init v None []))"
  then show "get_retrieve_request self query =
            Inr [(''retrievalQuery'', PDict [(''text'', PStr (py_strip query))]),
                 (''knowledgeBaseId'', PStr (knowledge_base_id self)),
                 (''retrievalConfiguration'',
                    PDict [(''vectorSearchConfiguration'', PDict [(''numberOfResults'', PInt n)])])]"
    by (simp add: get_retrieve_request_def d)
next
  assume "filter_field w = Some f"
  then show "map_of (VectorSearchConfig_dump w) ''filter'' = Some (PDict (SearchFilter_dump f))"
    by (simp add: VectorSearchConfig_dump_def field_item_def)
qed (simp_all only: SearchFilter_dump_aliases SearchFilter_dump_keys)

theorem unset_fields_are_omitted_witness:
  "RetrievalConfig_dump (RetrievalConfig_init
      \<lparr>numberOfResults = 7, filter_field = None, overrideSearchType = None, vs_extra = []\<rparr> None [])
     = [(''vectorSearchConfiguration'', PDict [(''numberOfResults'', PInt 7)])]
   \<and> VectorSearchConfig_dump
        \<lparr>numberOfResults = 4,
         filter_field = Some (SearchFilter None None None None None
                                (Some [(''key'', PStr ''tag''), (''value'', PList [PStr ''a''])])
                                None None None None None None None),
         overrideSearchType = None, vs_extra = []\<rparr>
     = [(''numberOfResults'', PInt 4),
        (''filter'', PDict [(''in'', PDict [(''key'', PStr ''tag''), (''value'', PList [PStr ''a''])])])]"
  using unset_fields_are_omitted [of 7
      "\<lparr>numberOfResults = 7, filter_field = None, overrideSearchType = None, vs_extra = []\<rparr>"
      "\<lparr>knowledge_base_id = ''kb-1'', region_name = None, credentials_profile_name = None,
        endpoint_url = None, retrieval_config = None, min_score_confidence = None\<rparr>"
      "''q''"
      "\<lparr>numberOfResults = 4,
         filter_field = Some (SearchFilter None None None None None
                                (Some [(''key'', PStr ''tag''), (''value'', PList [PStr ''a''])])
                                None None None None None None None),
         overrideSearchType = None, vs_extra = []\<rparr>"
      "SearchFilter None None None None None
                                (Some [(''key'', PStr ''tag''), (''value'', PList [PStr ''a''])])
                                None None None None None None None"]
  by (simp add: VectorSearchConfig_init_def VectorSearchConfig_dump_def field_item_def
      extra_items_def dump_filters_def)

section \<open>The aliased filter fields\<close>

text \<open>
  Claim C7. A \<^verbatim>\<open>SearchFilter\<close> built from the mapping with the one key \<^verbatim>\<open>in\<close> holds the
  value in the field \<open>in_field\<close> (the source's \<^verbatim>\<open>in_\<close>), and its serialisation is the
  mapping again, with the key \<^verbatim>\<open>in\<close>. Serialising any filter and validating the result
  gives the filter back, so every filter built from a mapping survives the round trip;
  and a serialised filter names the two aliased fields \<^verbatim>\<open>in\<close> and \<^verbatim>\<open>notIn\<close>, never
  \<^verbatim>\<open>in_\<close>.
\<close>

theorem filter_alias_round_trip:
  "SearchFilter_validate (PDict [(''in'', PDict d)])
     = Inr (SearchFilter None None None None None (Some d) None None None None None None None)
   \<and> in_field (SearchFilter None None None None None (Some d) None None None None None None None)
     = Some d
   \<and> SearchFilter_dump (SearchFilter None None None None None (Some d) None None None None None None None)
     = [(''in'', PDict d)]
   \<and> SearchFilter_validate (PDict (SearchFilter_dump f)) = Inr f
   \<and> (\<forall>g. SearchFilter_validate (PDict kvs) = Inr g \<longrightarrow>
          SearchFilter_validate (PDict (SearchFilter_dump g)) = Inr g
        \<and> map_of (SearchFilter_dump g) ''in'' = map_option PDict (in_field g)
        \<and> map_of (SearchFilter_dump g) ''notIn'' = map_option PDict (notIn g)
        \<and> map_of (SearchFilter_dump g) ''in_'' = None)
   \<and> map_of (SearchFilter_dump f) ''in'' = map_option PDict (in_field f)
   \<and> map_of (SearchFilter_dump f) ''notIn'' = map_option PDict (notIn f)
   \<and> map_of (SearchFilter_dump f) ''in_'' = None"
proof (intro conjI allI impI)
  show "SearchFilter_validate (PDict [(''in'', PDict d)])
     = Inr (SearchFilter None None None None None (Some d) None None None None None None None)"
    by (simp add: SearchFilter_leaves_def field_lookup_def bind_err_def)
  show "SearchFilter_dump (SearchFilter None None None None None (Some d) None None None None None None None)
     = [(''in'', PDict d)]"
    by (simp add: field_item_def dump_filters_def)
qed (simp_all only: validate_dump SearchFilter_dump_aliases SearchFilter.sel)

theorem filter_alias_round_trip_witness:
  "SearchFilter_validate (PDict [(''in'', PDict [(''key'', PStr ''tag''), (''value'', PList [PStr ''a'', PStr ''b''])])])
     = Inr (SearchFilter None None None None None
             (Some [(''key'', PStr ''tag''), (''value'', PList [PStr ''a'', PStr ''b''])])
             None None None None None None None)
   \<and> SearchFilter_validate
        (PDict [(''andAll'', PList [PDict [(''in_'', PDict [(''key'', PStr ''k'')])],
                                 PDict [(''notIn'', PDict [])]])])
     = Inr (SearchFilter
             (Some [SearchFilter None None None None None (Some [(''key'', PStr ''k'')])
                      None None None None None None None,
                    SearchFilter None None None None None None None None None None (Some [])
                      None None])
             None None None None None None None None None None None None)
   \<and> SearchFilter_dump (SearchFilter
             (Some [SearchFilter None None None None None (Some [(''key'', PStr ''k'')])
                      None None None None None None None,
                    SearchFilter None None None None None None None None None None (Some [])
                      None None])
             None None None None None None None None None None None None)
     = [(''andAll'', PList [PDict [(''in'', PDict [(''key'', PStr ''k'')])],
                           PDict [(''notIn'', PDict [])]])]"
  using filter_alias_round_trip [of
      "[(''key'', PStr ''tag''), (''value'', PList [PStr ''a'', PStr ''b''])]"
      "SearchFilter
             (Some [SearchFilter None None None None None (Some [(''key'', PStr ''k'')])
                      None None None None None None None,
                    SearchFilter None None None None None None None None None None (Some [])
                      None None])
             None None None None None None None None None None None None"
      "[(''andAll'', PList [PDict [(''in_'', PDict [(''key'', PStr ''k'')])],
                                 PDict [(''notIn'', PDict [])]])]"]
  by (simp add: SearchFilter_leaves_def field_lookup_def bind_err_def field_item_def dump_filters_def)

section \<open>The number of results\<close>

text \<open>
  The field is declared \<^verbatim>\<open>numberOfResults: int = 4\<close>, with no bound: a
  \<^verbatim>\<open>VectorSearchConfig\<close> is built with 0 and with a negative number.
\<close>

theorem non_positive_number_of_results_counterexample:
  "VectorSearchConfig_init (Some 0) None None []
     = Inr \<lparr>numberOfResults = 0, filter_field = None, overrideSearchType = None, vs_extra = []\<rparr>
   \<and> VectorSearchConfig_init (Some (- 3)) None None []
     = Inr \<lparr>numberOfResults = - 3, filter_field = None, overrideSearchType = None, vs_extra = []\<rparr>"
  by (simp add: VectorSearchConfig_init_def)

text \<open>
  Claim C9, amended. The number of results is an integer with the default 4, and no
  lower bound is checked: whatever integer is given, also 0 or a negative one, the
  constructed configuration holds it, and with the field left out it holds 4. The
  construction fails only for a search type that is neither HYBRID nor SEMANTIC.
\<close>

theorem number_of_results_is_unconstrained:
  "(\<forall>v. VectorSearchConfig_init n f t extra = Inr v \<longrightarrow>
       numberOfResults v = (case n of None \<Rightarrow> 4 | Some i \<Rightarrow> i))
   \<and> ((\<exists>v. VectorSearchConfig_init n f t extra = Inr v) \<longleftrightarrow>
        (t = None \<or> t = Some ''HYBRID'' \<or> t = Some ''SEMANTIC''))
   \<and> (\<exists>v. VectorSearchConfig_init (Some i) f None extra = Inr v \<and> numberOfResults v = i)
   \<and> (\<exists>v. VectorSearchConfig_init None f None extra = Inr v \<and> numberOfResults v = 4)"
  by (auto simp: VectorSearchConfig_init_def SearchType_of_def Let_def split: option.splits)

theorem number_of_results_is_unconstrained_witness:
  "numberOfResults (projr (VectorSearchConfig_init (Some (- 1)) None (Some ''SEMANTIC'') [])) = - 1
   \<and> numberOfResults (projr (VectorSearchConfig_init None None None [])) = 4
   \<and> VectorSearchConfig_init (Some 5) None (Some ''KEYWORD'') [] = Inl ValidationError"
  using number_of_results_is_unconstrained [of "Some (- 1)" None "Some ''SEMANTIC''" "[]" 0]
    number_of_results_is_unconstrained [of None None None "[]" 0]
    number_of_results_is_unconstrained [of "Some 5" None "Some ''KEYWORD''" "[]" 0]
  by (simp add: VectorSearchConfig_init_def SearchType_of_def)

end
